theory Spec2Isabelle
  imports Complex_Main "HOL-Library.AList"
begin

section \<open>JavaScript values\<close>

text \<open>
  The repository is a React front end written in TypeScript. Its components are embedded
  as HOL functions from props and state to the element tree they return.

  A JavaScript string is a sequence of UTF-16 code units, and \<open>length\<close> counts code
  units; it is modelled as a list of naturals. \<open>str\<close> turns an ASCII literal of the source
  into such a list.
\<close>

type_synonym jsstring = "nat list"

definition str :: "string \<Rightarrow> jsstring" where
  "str s = map of_char s"

text \<open>
  A JavaScript number is NaN, an infinity, or a finite value. A finite value is modelled by
  the real number it denotes: comparisons are exact as in IEEE 754, while the rounding of
  arithmetic results to the nearest double and the sign of zero are not modelled.
\<close>

datatype jsnum = NaN | PosInf | NegInf | Fin real

definition isNaN :: "jsnum \<Rightarrow> bool" where
  "isNaN n = (n = NaN)"

text \<open>\<open>a < b\<close>: every comparison with NaN is false.\<close>

fun js_lt :: "jsnum \<Rightarrow> jsnum \<Rightarrow> bool" where
  "js_lt NaN b = False"
| "js_lt a NaN = False"
| "js_lt (Fin x) (Fin y) = (x < y)"
| "js_lt NegInf NegInf = False"
| "js_lt NegInf b = True"
| "js_lt a NegInf = False"
| "js_lt PosInf b = False"
| "js_lt (Fin x) PosInf = True"

definition js_gt :: "jsnum \<Rightarrow> jsnum \<Rightarrow> bool" where
  "js_gt a b = js_lt b a"

text \<open>\<open>a >= b\<close> is \<open>b < a\<close> or equal; false when either side is NaN.\<close>

definition js_ge :: "jsnum \<Rightarrow> jsnum \<Rightarrow> bool" where
  "js_ge a b = (a \<noteq> NaN \<and> b \<noteq> NaN \<and> \<not> js_lt a b)"

text \<open>
  \<open>n * c\<close> and \<open>n / c\<close> for a positive finite literal \<open>c\<close> (the source only multiplies
  and divides by \<open>100\<close>): NaN and the infinities are kept.
\<close>

definition js_times :: "jsnum \<Rightarrow> real \<Rightarrow> jsnum" where
  "js_times n c = (case n of Fin x \<Rightarrow> Fin (x * c) | _ \<Rightarrow> n)"

definition js_over :: "jsnum \<Rightarrow> real \<Rightarrow> jsnum" where
  "js_over n c = (case n of Fin x \<Rightarrow> Fin (x / c) | _ \<Rightarrow> n)"

definition js_neg :: "jsnum \<Rightarrow> jsnum" where
  "js_neg n = (case n of NaN \<Rightarrow> NaN | PosInf \<Rightarrow> NegInf | NegInf \<Rightarrow> PosInf | Fin x \<Rightarrow> Fin (- x))"

text \<open>
  The values a field typed \<open>any\<close> (or a JSON field at run time) can hold. \<open>JObj\<close> stands
  for any object; only its truthiness is used.
\<close>

datatype jsval = JUndefined | JNull | JBool bool | JNum jsnum | JStr jsstring | JObj

fun truthy :: "jsval \<Rightarrow> bool" where
  "truthy JUndefined = False"
| "truthy JNull = False"
| "truthy (JBool b) = b"
| "truthy (JNum n) = (n \<noteq> NaN \<and> n \<noteq> Fin 0)"
| "truthy (JStr s) = (s \<noteq> [])"
| "truthy JObj = True"

text \<open>\<open>a || b\<close>\<close>

definition js_or :: "jsval \<Rightarrow> jsval \<Rightarrow> jsval" where
  "js_or a b = (if truthy a then a else b)"


subsection \<open>Strings\<close>

text \<open>
  \<open>String.prototype.trim\<close> removes the code units of WhiteSpace and LineTerminator
  (ECMAScript 2015 and later) from both ends.
\<close>

definition is_ws :: "nat \<Rightarrow> bool" where
  "is_ws c = (c \<in> set [9, 10, 11, 12, 13, 32, 160, 5760, 8232, 8233, 8239, 8287, 12288, 65279]
     \<or> (8192 \<le> c \<and> c \<le> 8202))"

definition trim :: "jsstring \<Rightarrow> jsstring" where
  "trim s = rev (dropWhile is_ws (rev (dropWhile is_ws s)))"

subsection \<open>Built-in functions\<close>

text \<open>
  The library functions the components call are parameters of the model: the theorems hold
  for every implementation of them.
  \<^item> \<open>parseFloat s\<close>: the global \<open>parseFloat\<close>;
  \<^item> \<open>toFixed n d\<close>: \<open>n.toFixed(d)\<close>;
  \<^item> \<open>toUpperCase s\<close>: \<open>s.toUpperCase()\<close>;
  \<^item> \<open>numberToString n\<close>: the text of a number placed in JSX or a template literal.
\<close>

record builtins =
  parseFloat :: "jsstring \<Rightarrow> jsnum"
  toFixed :: "jsnum \<Rightarrow> nat \<Rightarrow> jsstring"
  toUpperCase :: "jsstring \<Rightarrow> jsstring"
  numberToString :: "jsnum \<Rightarrow> jsstring"

text \<open>\<open>Math.round\<close>: the nearest integer, ties towards \<open>+\<infinity>\<close>.\<close>

definition math_round :: "jsnum \<Rightarrow> jsnum" where
  "math_round n = (case n of Fin x \<Rightarrow> Fin (of_int \<lfloor>x + 1 / 2\<rfloor>) | _ \<Rightarrow> n)"

subsection \<open>A decimal reading of the built-ins\<close>

text \<open>
  For concrete runs the built-ins are instantiated with \<open>decimal_builtins\<close>, which follows
  ECMAScript on decimal input with exact arithmetic: \<open>parseFloat_dec\<close> reads the longest
  prefix that is a StrDecimalLiteral after leading white space and returns its exact value
  (no rounding to a double); \<open>toFixed_dec\<close> prints in plain decimal notation, as JavaScript
  does below \<open>10^21\<close>, and \<open>numberToString_dec\<close> prints the integer part, the components
  passing it results of \<open>Math.round\<close> only; \<open>toUpperCase_ascii\<close> maps the letters \<open>a\<close> to
  \<open>z\<close>.
\<close>

definition is_digit :: "nat \<Rightarrow> bool" where
  "is_digit c = (48 \<le> c \<and> c \<le> 57)"

definition digits_value :: "jsstring \<Rightarrow> nat" where
  "digits_value ds = foldl (\<lambda>acc c. 10 * acc + (c - 48)) 0 ds"

definition starts_with :: "jsstring \<Rightarrow> jsstring \<Rightarrow> bool" where
  "starts_with p s = (take (length p) s = p)"

text \<open>The ExponentPart at the head of \<open>s\<close>, or \<open>0\<close> when there is none.\<close>

definition parse_exponent :: "jsstring \<Rightarrow> int" where
  "parse_exponent s =
     (case s of
        [] \<Rightarrow> 0
      | c # r \<Rightarrow>
          if c = 101 \<or> c = 69 then
            (let sg = (case r of [] \<Rightarrow> 1 | d # r2 \<Rightarrow> if d = 45 then - 1 else (1::int));
                 r' = (case r of [] \<Rightarrow> [] | d # r2 \<Rightarrow> if d = 43 \<or> d = 45 then r2 else r);
                 ds = takeWhile is_digit r'
             in if ds = [] then 0 else sg * int (digits_value ds))
          else 0)"

definition scale10 :: "real \<Rightarrow> int \<Rightarrow> real" where
  "scale10 v e = (if 0 \<le> e then v * 10 ^ nat e else v / 10 ^ nat (- e))"

definition parse_unsigned :: "jsstring \<Rightarrow> jsnum" where
  "parse_unsigned s =
     (if starts_with (str ''Infinity'') s then PosInf
      else
        let ip = takeWhile is_digit s;
            r = dropWhile is_digit s;
            fp = (case r of [] \<Rightarrow> [] | c # r' \<Rightarrow> if c = 46 then takeWhile is_digit r' else []);
            r2 = (case r of [] \<Rightarrow> [] | c # r' \<Rightarrow> if c = 46 then dropWhile is_digit r' else r)
        in if ip = [] \<and> fp = [] then NaN
           else Fin (scale10 (real (digits_value ip) + real (digits_value fp) / 10 ^ length fp)
                       (parse_exponent r2)))"

definition parseFloat_dec :: "jsstring \<Rightarrow> jsnum" where
  "parseFloat_dec s =
     (let t = dropWhile is_ws s
      in case t of
           [] \<Rightarrow> NaN
         | c # r \<Rightarrow>
             if c = 45 then js_neg (parse_unsigned r)
             else if c = 43 then parse_unsigned r
             else parse_unsigned t)"

function dec :: "nat \<Rightarrow> jsstring" where
  "dec n = (if n < 10 then [48 + n] else dec (n div 10) @ [48 + n mod 10])"
  by pat_completeness auto
termination
  by (relation "measure id") auto

declare dec.simps [simp del]

definition toFixed_dec :: "jsnum \<Rightarrow> nat \<Rightarrow> jsstring" where
  "toFixed_dec n d =
     (case n of
        NaN \<Rightarrow> str ''NaN''
      | PosInf \<Rightarrow> str ''Infinity''
      | NegInf \<Rightarrow> str ''-Infinity''
      | Fin x \<Rightarrow>
          let m = nat \<lfloor>\<bar>x\<bar> * 10 ^ d + 1 / 2\<rfloor>;
              ds = dec m;
              padded = replicate (d + 1 - length ds) 48 @ ds;
              k = length padded - d;
              body = (if d = 0 then padded else take k padded @ str ''.'' @ drop k padded)
          in (if x < 0 then str ''-'' else []) @ body)"

definition numberToString_dec :: "jsnum \<Rightarrow> jsstring" where
  "numberToString_dec n =
     (case n of
        NaN \<Rightarrow> str ''NaN''
      | PosInf \<Rightarrow> str ''Infinity''
      | NegInf \<Rightarrow> str ''-Infinity''
      | Fin x \<Rightarrow> (if x < 0 then str ''-'' else []) @ dec (nat \<lfloor>\<bar>x\<bar>\<rfloor>))"

definition toUpperCase_ascii :: "jsstring \<Rightarrow> jsstring" where
  "toUpperCase_ascii s = map (\<lambda>c. if 97 \<le> c \<and> c \<le> 122 then c - 32 else c) s"

definition decimal_builtins :: builtins where
  "decimal_builtins =
     \<lparr>parseFloat = parseFloat_dec, toFixed = toFixed_dec,
      toUpperCase = toUpperCase_ascii, numberToString = numberToString_dec\<rparr>"

section \<open>Element trees\<close>

text \<open>
  What a component returns: a text node, or an element with its tag, its \<open>className\<close> and
  its children. A child that React does not render (\<open>false\<close>, \<open>null\<close>, \<open>undefined\<close>) is
  left out of the list. Event handlers and the attributes of the SVG icons are left out.
\<close>

datatype vnode = VText jsstring | VElem string jsstring "vnode list"

fun texts :: "vnode \<Rightarrow> jsstring list" where
  "texts (VText s) = [s]"
| "texts (VElem tg cls kids) = concat (map texts kids)"

text \<open>A node and all the nodes below it.\<close>

fun subnodes :: "vnode \<Rightarrow> vnode list" where
  "subnodes (VText s) = [VText s]"
| "subnodes (VElem tg cls kids) = VElem tg cls kids # concat (map subnodes kids)"

section \<open>PriorityBadge\<close>

datatype badge_size = Sm | Md | Lg

fun sizeClasses :: "badge_size \<Rightarrow> jsstring" where
  "sizeClasses Sm = str ''px-2 py-0.5 text-xs''"
| "sizeClasses Md = str ''px-3 py-1 text-sm''"
| "sizeClasses Lg = str ''px-4 py-1.5 text-base''"

definition getBadgeClass :: "jsstring \<Rightarrow> jsstring" where
  "getBadgeClass priorityBand =
     (if priorityBand = str ''P0'' then str ''badge-p0''
      else if priorityBand = str ''P1'' then str ''badge-p1''
      else if priorityBand = str ''P2'' then str ''badge-p2''
      else if priorityBand = str ''P3'' then str ''badge-p3''
      else str ''bg-gray-100 text-gray-800 border border-gray-200'')"

definition displayScore :: "builtins \<Rightarrow> jsval \<Rightarrow> jsstring" where
  "displayScore B score =
     (case score of
        JNum n \<Rightarrow> if \<not> isNaN n then toFixed B (js_times n 100) 0 else str ''0''
      | _ \<Rightarrow> str ''0'')"

definition PriorityBadge :: "builtins \<Rightarrow> jsstring \<Rightarrow> jsval \<Rightarrow> badge_size \<Rightarrow> vnode" where
  "PriorityBadge B priorityBand score sz =
     VElem ''span''
       (str ''inline-flex items-center gap-2 rounded-full font-semibold '' @
        getBadgeClass priorityBand @ str '' '' @ sizeClasses sz)
       [VElem ''span'' [] [VText priorityBand],
        VElem ''span'' (str ''opacity-75'') [VText (str ''('' @ displayScore B score @ str ''%)'')]]"

section \<open>Tickets\<close>

text \<open>
  The ticket as the API delivers it (\<open>Ticket\<close> in \<open>services/api.ts\<close> and in the
  components), with the fields the components read; \<open>ticket_text\<close> is its field \<open>text\<close>.
  Fields have their TypeScript types;
  \<open>llm_signals\<close> is typed \<open>any\<close>: it is absent (\<open>None\<close>) or an object whose \<open>error\<close> field
  may hold any value.
\<close>

record signals =
  urgency :: "jsstring option"
  confidence :: "jsnum option"
  sentiment :: "jsstring option"
  summary :: "jsstring option"
  error :: jsval

record breakdown =
  effective_urgency :: real
  sla_risk :: real
  customer_tier_weight :: real
  final_score :: real
  urgency_contribution :: real
  sla_contribution :: real
  tier_contribution :: real

record ticket =
  ticket_id :: jsstring
  ticket_text :: jsstring
  customer_tier :: jsstring
  customer_name :: "jsstring option"
  customer_email :: "jsstring option"
  customer_account_id :: "jsstring option"
  sla_hours_remaining :: jsnum
  created_at :: jsstring
  priority_score :: jsnum
  priority_band :: jsstring
  priority_breakdown :: "breakdown option"
  llm_signals :: "signals option"
  manual_override :: bool
  override_priority :: "jsnum option"
  override_reason :: "jsstring option"
  override_by :: "jsstring option"
  override_at :: "jsstring option"
  effective_priority :: jsnum
  status :: jsstring

text \<open>\<open>n || d\<close> on numbers: \<open>0\<close> and NaN are falsy.\<close>

definition num_or :: "jsnum \<Rightarrow> jsnum \<Rightarrow> jsnum" where
  "num_or n d = (if truthy (JNum n) then n else d)"

definition opt_list :: "'a option \<Rightarrow> 'a list" where
  "opt_list x = (case x of None \<Rightarrow> [] | Some v \<Rightarrow> [v])"

section \<open>UrgencyIndicator and SentimentIndicator\<close>

record urgency_display =
  u_text :: jsstring
  u_color :: jsstring
  u_bg :: jsstring
  u_icon :: jsstring

definition getUrgencyDisplay :: "jsstring \<Rightarrow> urgency_display option" where
  "getUrgencyDisplay u =
     (if u = str ''critical'' then
        Some \<lparr>u_text = str ''Critical'', u_color = str ''text-red-700'',
              u_bg = str ''bg-red-100'', u_icon = [55357, 56628]\<rparr>
      else if u = str ''high'' then
        Some \<lparr>u_text = str ''High'', u_color = str ''text-orange-700'',
              u_bg = str ''bg-orange-100'', u_icon = [55357, 57312]\<rparr>
      else if u = str ''medium'' then
        Some \<lparr>u_text = str ''Medium'', u_color = str ''text-yellow-700'',
              u_bg = str ''bg-yellow-100'', u_icon = [55357, 57313]\<rparr>
      else if u = str ''low'' then
        Some \<lparr>u_text = str ''Low'', u_color = str ''text-green-700'',
              u_bg = str ''bg-green-100'', u_icon = [55357, 57314]\<rparr>
      else None)"

definition unavailable_message :: vnode where
  "unavailable_message =
     VElem ''span'' (str ''text-xs text-gray-500 italic'') [VText (str ''AI analysis unavailable'')]"

text \<open>
  The props \<open>urgency\<close> and \<open>confidence\<close> are \<open>u\<close> and \<open>conf\<close>; \<open>None\<close> is \<open>null\<close> or
  \<open>undefined\<close>. \<open>!urgency\<close> holds for \<open>null\<close> and for the empty string. The component
  returns \<open>null\<close> (here \<open>None\<close>) for an urgency it does not know.
\<close>

definition urgency_badge :: "builtins \<Rightarrow> urgency_display \<Rightarrow> jsnum option \<Rightarrow> vnode" where
  "urgency_badge B display conf =
     VElem ''div'' (str ''inline-flex items-center gap-2'')
       ([VElem ''div''
           (str ''flex items-center gap-1.5 px-2.5 py-1 rounded-md '' @ u_bg display)
           [VElem ''span'' [] [VText (u_icon display)],
            VElem ''span'' (str ''text-xs font-semibold '' @ u_color display)
              [VText (u_text display)]]] @
        (case conf of
           None \<Rightarrow> []
         | Some c \<Rightarrow>
             [VElem ''span'' (str ''text-xs text-gray-500'')
                [VText (str ''('' @ numberToString B (math_round (js_times c 100)) @
                        str ''% confident)'')]]))"

definition UrgencyIndicator :: "builtins \<Rightarrow> jsstring option \<Rightarrow> jsnum option \<Rightarrow> vnode option" where
  "UrgencyIndicator B u conf =
     (case u of
        None \<Rightarrow> Some unavailable_message
      | Some level \<Rightarrow>
          if \<not> truthy (JStr level) then Some unavailable_message
          else
            case getUrgencyDisplay level of
              None \<Rightarrow> None
            | Some display \<Rightarrow> Some (urgency_badge B display conf))"

text \<open>The sentiment indicator is disabled in the source: it returns \<open>null\<close>.\<close>

definition SentimentIndicator :: "jsstring option \<Rightarrow> vnode option" where
  "SentimentIndicator s = None"

section \<open>TicketCard\<close>

subsection \<open>Property lookup on an object literal\<close>

text \<open>
  \<open>obj[key]\<close> on an object literal finds the literal's own properties and, for the other
  keys, those inherited from \<open>Object.prototype\<close>. Every inherited one is a function or an
  object, hence truthy, and has no \<open>label\<close> and no \<open>color\<close>.
\<close>

datatype 'a property = Own 'a | Inherited | Absent

definition object_prototype_keys :: "jsstring list" where
  "object_prototype_keys =
     [str ''constructor'', str ''__proto__'', str ''hasOwnProperty'', str ''isPrototypeOf'',
      str ''propertyIsEnumerable'', str ''toLocaleString'', str ''toString'', str ''valueOf'',
      str ''__defineGetter__'', str ''__defineSetter__'', str ''__lookupGetter__'',
      str ''__lookupSetter__'']"

definition get_property :: "(jsstring \<times> 'a) list \<Rightarrow> jsstring \<Rightarrow> 'a property" where
  "get_property obj k =
     (case map_of obj k of
        Some v \<Rightarrow> Own v
      | None \<Rightarrow> if k \<in> set object_prototype_keys then Inherited else Absent)"

subsection \<open>The tier badge\<close>

record tier_info =
  tier_label :: jsstring
  tier_color :: jsstring

definition tier_standard :: tier_info where
  "tier_standard =
     \<lparr>tier_label = str ''TIER-3'', tier_color = str ''bg-gray-100 text-gray-800 border-gray-200''\<rparr>"

definition tierMapping :: "(jsstring \<times> tier_info) list" where
  "tierMapping =
     [(str ''enterprise'',
        \<lparr>tier_label = str ''TIER-1'', tier_color = str ''bg-purple-100 text-purple-800 border-purple-200''\<rparr>),
      (str ''business'',
        \<lparr>tier_label = str ''TIER-2'', tier_color = str ''bg-blue-100 text-blue-800 border-blue-200''\<rparr>),
      (str ''standard'', tier_standard),
      (str ''free'',
        \<lparr>tier_label = str ''TIER-4'', tier_color = str ''bg-slate-100 text-slate-800 border-slate-200''\<rparr>)]"

definition tier_badge :: "tier_info \<Rightarrow> vnode" where
  "tier_badge tier =
     VElem ''span'' (str ''px-2 py-0.5 text-xs font-medium rounded border '' @ tier_color tier)
       [VText (tier_label tier)]"

text \<open>
  \<open>tierMapping[ticket.customer_tier] || tierMapping.standard\<close>: an inherited property is
  truthy, so it is kept; its \<open>color\<close> prints as \<open>undefined\<close> and its \<open>label\<close> renders nothing.
\<close>

definition getCustomerTierBadge :: "ticket \<Rightarrow> vnode" where
  "getCustomerTierBadge t =
     (case get_property tierMapping (customer_tier t) of
        Own tier \<Rightarrow> tier_badge tier
      | Inherited \<Rightarrow>
          VElem ''span'' (str ''px-2 py-0.5 text-xs font-medium rounded border undefined'') []
      | Absent \<Rightarrow> tier_badge tier_standard)"

subsection \<open>The SLA warning\<close>

definition sla_warning :: "builtins \<Rightarrow> jsnum \<Rightarrow> vnode" where
  "sla_warning B h =
     VElem ''div'' (str ''flex items-center gap-1.5 text-red-600'')
       [VElem ''svg'' (str ''w-4 h-4'') [VElem ''path'' [] []],
        VElem ''span'' (str ''text-xs font-semibold'')
          [VText (str ''SLA: '' @ toFixed B h 1 @ str ''h remaining'')]]"

definition sla_plain :: "builtins \<Rightarrow> jsnum \<Rightarrow> vnode" where
  "sla_plain B h =
     VElem ''span'' (str ''text-xs text-gray-500'') [VText (str ''SLA: '' @ toFixed B h 1 @ str ''h'')]"

definition getSLAWarning :: "builtins \<Rightarrow> ticket \<Rightarrow> vnode" where
  "getSLAWarning B t =
     (if js_lt (sla_hours_remaining t) (Fin 4) then sla_warning B (sla_hours_remaining t)
      else sla_plain B (sla_hours_remaining t))"

subsection \<open>Header and AI block of the card\<close>

definition override_marker :: vnode where
  "override_marker =
     VElem ''span''
       (str ''px-2 py-0.5 text-xs font-medium bg-purple-100 text-purple-800 rounded border border-purple-200'')
       [VText (str ''MANUAL OVERRIDE'')]"

definition cardBadges :: "builtins \<Rightarrow> ticket \<Rightarrow> vnode list" where
  "cardBadges B t =
     [PriorityBadge B (priority_band t) (JNum (num_or (priority_score t) (Fin 0))) Md] @
     (if manual_override t then [override_marker] else [])"

definition cardHeader :: "builtins \<Rightarrow> ticket \<Rightarrow> vnode" where
  "cardHeader B t =
     VElem ''div'' (str ''flex flex-col sm:flex-row sm:items-start justify-between gap-2 sm:gap-3 mb-3'')
       [VElem ''div'' (str ''flex items-center gap-3'') (cardBadges B t),
        VElem ''span'' (str ''text-xs text-gray-500'') [VText (ticket_id t)]]"

text \<open>
  \<open>{ticket.llm_signals && !ticket.llm_signals.error && (...)}\<close>: the list of children this
  expression contributes, empty when the guard fails.
\<close>

definition cardAISignals :: "builtins \<Rightarrow> ticket \<Rightarrow> vnode list" where
  "cardAISignals B t =
     (case llm_signals t of
        None \<Rightarrow> []
      | Some sig \<Rightarrow>
          if truthy (error sig) then []
          else
            [VElem ''div'' (str ''mb-3 p-3 bg-blue-50 rounded-lg border border-blue-100'')
               ([VElem ''div'' (str ''flex items-center gap-2 mb-2'')
                   [VElem ''span'' (str ''text-xs font-semibold text-blue-900'')
                      [VText ([55358, 56598] @ str '' AI Analysis'')]]] @
                (case summary sig of
                   None \<Rightarrow> []
                 | Some s \<Rightarrow>
                     if truthy (JStr s) then
                       [VElem ''p'' (str ''text-sm text-gray-700 mb-2 italic'')
                          [VText ([34] @ s @ [34])]]
                     else []) @
                [VElem ''div'' (str ''flex flex-wrap items-center gap-3'')
                   (opt_list (UrgencyIndicator B (urgency sig) (confidence sig)) @
                    opt_list (SentimentIndicator (sentiment sig)))])])"

definition cardFooterBadges :: "builtins \<Rightarrow> ticket \<Rightarrow> vnode list" where
  "cardFooterBadges B t = [getCustomerTierBadge t, getSLAWarning B t]"

section \<open>TicketDetailModal\<close>

definition tierMap :: "(jsstring \<times> jsstring) list" where
  "tierMap =
     [(str ''enterprise'', str ''TIER-1''), (str ''business'', str ''TIER-2''),
      (str ''standard'', str ''TIER-3''), (str ''free'', str ''TIER-4'')]"

text \<open>\<open>tierMap[tier] || tier.toUpperCase()\<close>; an inherited property is the object \<open>JObj\<close>.\<close>

definition getTierDisplay :: "builtins \<Rightarrow> jsstring \<Rightarrow> jsval" where
  "getTierDisplay B tier =
     (case get_property tierMap tier of
        Own l \<Rightarrow> if truthy (JStr l) then JStr l else JStr (toUpperCase B tier)
      | Inherited \<Rightarrow> JObj
      | Absent \<Rightarrow> JStr (toUpperCase B tier))"

definition modalBadge :: "builtins \<Rightarrow> ticket \<Rightarrow> vnode" where
  "modalBadge B t = PriorityBadge B (priority_band t) (JNum (priority_score t)) Lg"

definition modalAISignals :: "builtins \<Rightarrow> ticket \<Rightarrow> vnode list" where
  "modalAISignals B t =
     (case llm_signals t of
        None \<Rightarrow> []
      | Some sig \<Rightarrow>
          if truthy (error sig) then []
          else
            [VElem ''div'' (str ''bg-blue-50 border p-4 rounded'')
               (opt_list (UrgencyIndicator B (urgency sig) (confidence sig)) @
                opt_list (SentimentIndicator (sentiment sig)))])"

subsection \<open>The overview tab and the action row\<close>

text \<open>
  \<open>{getTierDisplay(ticket.customer_tier)}\<close> as a child of an element: a string is a text;
  an inherited function renders nothing; the inherited \<open>__proto__\<close> is \<open>Object.prototype\<close>
  itself, an object, which React refuses as a child by throwing.
\<close>

datatype render_error = InvalidChild

definition tier_child :: "builtins \<Rightarrow> jsstring \<Rightarrow> render_error + vnode list" where
  "tier_child B tier =
     (case getTierDisplay B tier of
        JStr s \<Rightarrow> Inr [VText s]
      | JNum n \<Rightarrow> Inr [VText (numberToString B n)]
      | JObj \<Rightarrow> if tier = str ''__proto__'' then Inl InvalidChild else Inr []
      | _ \<Rightarrow> Inr [])"

text \<open>
  An optional string is truthy when it is neither \<open>null\<close>, \<open>undefined\<close> nor empty;
  \<open>s && (...)\<close> contributes its children only then.
\<close>

definition present :: "jsstring option \<Rightarrow> bool" where
  "present s = (case s of None \<Rightarrow> False | Some x \<Rightarrow> truthy (JStr x))"

definition when_present :: "jsstring option \<Rightarrow> (jsstring \<Rightarrow> vnode list) \<Rightarrow> vnode list" where
  "when_present s k = (case s of None \<Rightarrow> [] | Some x \<Rightarrow> if truthy (JStr x) then k x else [])"

definition customerDetails :: "ticket \<Rightarrow> vnode list" where
  "customerDetails t =
     (if present (customer_name t) \<or> present (customer_email t) \<or>
         present (customer_account_id t)
      then
        [VElem ''div'' (str ''bg-green-50 border p-4 rounded'')
           ([VElem ''h3'' (str ''font-semibold mb-3'') [VText ([55357, 56420] @ str '' Customer Details'')]] @
            when_present (customer_name t)
              (\<lambda>x. [VElem ''p'' [] [VElem ''strong'' [] [VText (str ''Name:'')], VText (str '' ''), VText x]]) @
            when_present (customer_email t)
              (\<lambda>x. [VElem ''p'' []
                      [VElem ''strong'' [] [VText (str ''Email:'')], VText (str '' ''),
                       VElem ''a'' (str ''text-blue-600 hover:underline'') [VText x]]]) @
            when_present (customer_account_id t)
              (\<lambda>x. [VElem ''p'' []
                      [VElem ''strong'' [] [VText (str ''Account ID:'')], VText (str '' ''),
                       VElem ''span'' (str ''font-mono'') [VText x]]]))]
      else [])"

text \<open>
  The content of the overview tab: the badge, the ticket text, the customer details, the
  AI block and the tier and SLA cells.
\<close>

definition modalOverview :: "builtins \<Rightarrow> ticket \<Rightarrow> render_error + vnode" where
  "modalOverview B t =
     (case tier_child B (customer_tier t) of
        Inl e \<Rightarrow> Inl e
      | Inr tc \<Rightarrow>
          Inr (VElem ''div'' (str ''space-y-6'')
            ([modalBadge B t,
              VElem ''p'' (str ''bg-gray-50 p-4 rounded border'') [VText (ticket_text t)]] @
             customerDetails t @
             modalAISignals B t @
             [VElem ''div'' (str ''grid grid-cols-2 gap-4'')
                [VElem ''div'' (str ''card'')
                   [VElem ''p'' [] [VText (str ''Customer Tier'')], VElem ''strong'' [] tc],
                 VElem ''div'' (str ''card'')
                   [VElem ''p'' [] [VText (str ''SLA Remaining'')],
                    VElem ''strong'' []
                      [VText (toFixed B (sla_hours_remaining t) 1), VText (str '' hrs'')]]]])))"

text \<open>
  The action row while the override form is closed (\<open>isOverrideMode\<close> false); with the
  form open the row holds the \<open>OverrideForm\<close> instead.
\<close>

definition modalActions :: "ticket \<Rightarrow> vnode" where
  "modalActions t =
     VElem ''div'' (str ''flex gap-3 mt-6 pt-6 border-t'')
       [if manual_override t
        then VElem ''button'' (str ''btn-danger flex-1'') [VText (str ''Remove Override'')]
        else VElem ''button'' (str ''btn-primary flex-1'') [VText (str ''Override Priority'')],
        VElem ''button'' (str ''btn-secondary'') [VText (str ''Close'')]]"

section \<open>OverrideForm\<close>

text \<open>
  The state of the form (its four \<open>useState\<close> cells). \<open>errors\<close> is a
  \<open>Record<string, string>\<close>, kept as an association list; \<open>Object.keys\<close> are its keys.
\<close>

record override_form =
  priority :: jsstring
  reason :: jsstring
  agentName :: jsstring
  errors :: "(string \<times> string) list"

text \<open>What the form passes to \<open>onSubmit\<close>: \<open>{ priority, reason, by }\<close>.\<close>

record override_data =
  data_priority :: jsnum
  data_reason :: jsstring
  data_by :: jsstring

definition initial_form :: "builtins \<Rightarrow> jsnum \<Rightarrow> override_form" where
  "initial_form B currentPriority =
     \<lparr>priority = toFixed B (js_times currentPriority 100) 0, reason = [], agentName = [],
      errors = []\<rparr>"

text \<open>\<open>validate\<close> stores the errors it found in the state and returns whether there are none.\<close>

definition validate :: "builtins \<Rightarrow> override_form \<Rightarrow> override_form \<times> bool" where
  "validate B f =
     (let priorityNum = parseFloat B (priority f);
          e1 = (if isNaN priorityNum \<or> js_lt priorityNum (Fin 0) \<or> js_gt priorityNum (Fin 100)
                then AList.update ''priority'' ''Priority must be between 0 and 100'' []
                else []);
          e2 = (if length (trim (reason f)) < 5
                then AList.update ''reason'' ''Reason must be at least 5 characters'' e1
                else e1);
          newErrors = (if length (trim (agentName f)) < 2
                then AList.update ''agentName'' ''Please enter your name'' e2
                else e2)
      in (f\<lparr>errors := newErrors\<rparr>, length (map fst newErrors) = 0))"

text \<open>
  \<open>handleSubmit\<close>: \<open>onSubmit\<close> is the callback prop, a state transformer on whatever the
  parent owns (\<open>'w\<close>); it is called only after a successful validation.
\<close>

definition handleSubmit ::
  "builtins \<Rightarrow> (override_data \<Rightarrow> 'w \<Rightarrow> 'w) \<Rightarrow> override_form \<Rightarrow> 'w \<Rightarrow> override_form \<times> 'w" where
  "handleSubmit B onSubmit f w =
     (let (f', ok) = validate B f
      in if \<not> ok then (f', w)
         else (f', onSubmit \<lparr>data_priority = js_over (parseFloat B (priority f)) 100,
                              data_reason = trim (reason f),
                              data_by = trim (agentName f)\<rparr> w))"

text \<open>\<open>const priorityNum = parseFloat(priority) || 0\<close>\<close>

definition priorityNum :: "builtins \<Rightarrow> override_form \<Rightarrow> jsnum" where
  "priorityNum B f = num_or (parseFloat B (priority f)) (Fin 0)"

record band_info =
  band :: jsstring
  band_color :: jsstring

text \<open>\<open>getPriorityBand\<close> closes over \<open>priorityNum\<close>; here it is the argument \<open>p\<close>.\<close>

definition getPriorityBand :: "jsnum \<Rightarrow> band_info" where
  "getPriorityBand p =
     (if js_ge p (Fin 80) then \<lparr>band = str ''P0'', band_color = str ''text-red-600''\<rparr>
      else if js_ge p (Fin 60) then \<lparr>band = str ''P1'', band_color = str ''text-orange-600''\<rparr>
      else if js_ge p (Fin 40) then \<lparr>band = str ''P2'', band_color = str ''text-yellow-600''\<rparr>
      else \<lparr>band = str ''P3'', band_color = str ''text-green-600''\<rparr>)"

text \<open>The "New Priority" preview: \<open>{priorityNum.toFixed(0)}% ({priorityInfo.band})\<close>.\<close>

definition newPriorityPreview :: "builtins \<Rightarrow> override_form \<Rightarrow> vnode" where
  "newPriorityPreview B f =
     (let priorityInfo = getPriorityBand (priorityNum B f)
      in VElem ''p'' (str ''text-2xl font-bold '' @ band_color priorityInfo)
           [VText (toFixed B (priorityNum B f) 0 @ str ''% ('' @ band priorityInfo @ str '')'')])"

section \<open>Submitting an override from the detail modal\<close>

text \<open>
  \<open>ticketApi.overridePriority(ticketId, {override_priority, override_reason, override_by})\<close>:
  the request sent to the back end, the only way the form reaches a stored ticket.
\<close>

datatype api_call = OverridePriority jsstring jsnum jsstring jsstring

text \<open>
  What \<open>handleOverride\<close> can change: the requests sent so far, the modal's two state cells,
  the alerts shown and whether \<open>onClose\<close> was called.
\<close>

record page =
  requests :: "api_call list"
  isOverrideMode :: bool
  isSubmitting :: bool
  alerts :: "string list"
  closed :: bool

text \<open>
  \<open>handleOverride\<close>: \<open>responds c\<close> tells whether the awaited call \<open>c\<close> resolves (otherwise
  it throws and the \<open>catch\<close> branch runs); \<open>finally\<close> resets \<open>isSubmitting\<close>.
\<close>

definition handleOverride :: "(api_call \<Rightarrow> bool) \<Rightarrow> ticket \<Rightarrow> override_data \<Rightarrow> page \<Rightarrow> page" where
  "handleOverride responds t d w =
     (let c = OverridePriority (ticket_id t) (data_priority d) (data_reason d) (data_by d);
          w1 = w\<lparr>isSubmitting := True, requests := requests w @ [c]\<rparr>;
          w2 = (if responds c
                then w1\<lparr>isOverrideMode := False,
                        alerts := alerts w1 @ [''Priority override applied successfully!''],
                        closed := True\<rparr>
                else w1\<lparr>alerts := alerts w1 @ [''Failed to apply override. Please try again.'']\<rparr>)
      in w2\<lparr>isSubmitting := False\<rparr>)"

section \<open>PriorityBreakdown\<close>

text \<open>
  The rows of the breakdown view. The numbers of a breakdown are finite and modelled as
  reals; the decimal literals \<open>0.4\<close> and \<open>0.2\<close> stand for the numbers they denote.
\<close>

record component =
  comp_name :: jsstring
  comp_value :: real
  weight :: real
  contribution :: real
  comp_color :: jsstring
  description :: jsstring

definition components :: "breakdown \<Rightarrow> component list" where
  "components b =
     [\<lparr>comp_name = str ''AI Urgency Analysis'', comp_value = effective_urgency b,
       weight = 0.4, contribution = urgency_contribution b, comp_color = str ''bg-blue-500'',
       description = str ''AI-determined urgency '' @ [215] @ str '' confidence level''\<rparr>,
      \<lparr>comp_name = str ''SLA Risk'', comp_value = sla_risk b,
       weight = 0.4, contribution = sla_contribution b, comp_color = str ''bg-orange-500'',
       description = str ''Time-based urgency (< 4hrs = high risk)''\<rparr>,
      \<lparr>comp_name = str ''Customer Tier'', comp_value = customer_tier_weight b,
       weight = 0.2, contribution = tier_contribution b, comp_color = str ''bg-purple-500'',
       description = str ''Tier-1 > Tier-2 > Tier-3 > Tier-4''\<rparr>]"

section \<open>The scoring engine, from the specification\<close>

text \<open>
  The engine that computes scores, bands and breakdowns runs in the back end, which is not
  among the source files. The definitions of this section follow the specification
  (sections 4.1, 4.2 and 9).
\<close>

text \<open>Modelled from the spec: the ordered urgency enum of the AI signal (section 3).\<close>

datatype urgency_level = Low | Medium | High | Critical

text \<open>
  Modelled from the spec: the AI signal as the tagged variant of section 9, with the two
  fields scoring reads (the urgency level and the optional confidence).
\<close>

datatype signal = Present urgency_level "real option" | Unavailable | Errored

text \<open>Modelled from the spec: \<open>urgency_score\<close> of section 4.1.\<close>

fun urgency_score :: "urgency_level \<Rightarrow> real" where
  "urgency_score Critical = 1.0"
| "urgency_score High = 0.75"
| "urgency_score Medium = 0.5"
| "urgency_score Low = 0.25"

text \<open>
  Modelled from the spec: \<open>effective_urgency = urgency_score(level) * confidence\<close>, the
  confidence defaulting to \<open>1.0\<close>; \<open>0\<close> when the signal is absent or errored.
\<close>

fun normalize_urgency :: "signal \<Rightarrow> real" where
  "normalize_urgency (Present level (Some c)) = urgency_score level * c"
| "normalize_urgency (Present level None) = urgency_score level * 1.0"
| "normalize_urgency Unavailable = 0"
| "normalize_urgency Errored = 0"

text \<open>Modelled from the spec: \<open>clamp(x, lo, hi)\<close> as used by \<open>sla_risk\<close>.\<close>

definition clamp :: "real \<Rightarrow> real \<Rightarrow> real \<Rightarrow> real" where
  "clamp x lo hi = max lo (min x hi)"

text \<open>
  Modelled from the spec:
  \<open>sla_risk = clamp(1 - (sla_hours_remaining / reference_window), 0, 1)\<close>, the reference
  window being a parameter.
\<close>

definition normalize_sla :: "real \<Rightarrow> real \<Rightarrow> real" where
  "normalize_sla reference_window hours = clamp (1 - hours / reference_window) 0 1"

text \<open>
  Modelled from the spec: \<open>tier_score\<close> of section 4.1; an unrecognized tier has the
  weight of \<open>standard\<close>.
\<close>

definition tier_score :: "jsstring \<Rightarrow> real" where
  "tier_score tier =
     (if tier = str ''enterprise'' then 1.0
      else if tier = str ''business'' then 0.67
      else if tier = str ''standard'' then 0.33
      else if tier = str ''free'' then 0.0
      else 0.33)"

text \<open>Modelled from the spec: the fixed weights of section 4.2.\<close>

definition w_urgency :: real where "w_urgency = 0.4"

definition w_sla :: real where "w_sla = 0.4"

definition w_tier :: real where "w_tier = 0.2"

text \<open>Modelled from the spec: the banding thresholds of section 4.2.\<close>

definition band_of_score :: "real \<Rightarrow> jsstring" where
  "band_of_score s =
     (if s \<ge> 0.80 then str ''P0''
      else if s \<ge> 0.60 then str ''P1''
      else if s \<ge> 0.40 then str ''P2''
      else str ''P3'')"

text \<open>Modelled from the spec: the breakdown of section 4.2 from the three normalized values.\<close>

definition make_breakdown :: "real \<Rightarrow> real \<Rightarrow> real \<Rightarrow> breakdown" where
  "make_breakdown eu risk tw =
     \<lparr>effective_urgency = eu, sla_risk = risk, customer_tier_weight = tw,
      final_score = eu * w_urgency + risk * w_sla + tw * w_tier,
      urgency_contribution = eu * w_urgency,
      sla_contribution = risk * w_sla,
      tier_contribution = tw * w_tier\<rparr>"

text \<open>
  Modelled from the spec: the result \<open>{final_score, band, breakdown}\<close> of
  \<open>compute_priority\<close> (section 6).
\<close>

record priority_result =
  result_score :: real
  result_band :: jsstring
  result_breakdown :: breakdown

text \<open>
  Modelled from the spec: \<open>compute_priority(ticket_inputs, ai_signal)\<close> of section 6, the
  ticket inputs being the tier and the SLA hours remaining, and the reference window a
  parameter.
\<close>

definition compute_priority :: "real \<Rightarrow> jsstring \<Rightarrow> real \<Rightarrow> signal \<Rightarrow> priority_result" where
  "compute_priority reference_window tier hours sig =
     (let b = make_breakdown (normalize_urgency sig) (normalize_sla reference_window hours)
                (tier_score tier)
      in \<lparr>result_score = final_score b, result_band = band_of_score (final_score b),
          result_breakdown = b\<rparr>)"

section \<open>Example data\<close>

text \<open>
  A ticket with a computed score of \<open>0.3\<close> (band \<open>P3\<close>) carrying a manual override of
  \<open>0.9\<close>, for a customer whose tier \<open>gold\<close> is not one of the four known tiers; variants
  of it whose AI signal is flagged errored or has no urgency; and an open override form
  on an otherwise idle page.
\<close>

definition example_signals :: signals where
  "example_signals =
     \<lparr>urgency = Some (str ''critical''), confidence = Some (Fin 0.9),
      sentiment = Some (str ''negative''), summary = Some (str ''Checkout is down''),
      error = JUndefined\<rparr>"

definition example_ticket :: ticket where
  "example_ticket =
     \<lparr>ticket_id = str ''TKT-1001'', ticket_text = str ''Checkout fails for all users'',
      customer_tier = str ''gold'', customer_name = Some (str ''Avery Lee''),
      customer_email = None, customer_account_id = None, sla_hours_remaining = Fin 2.5,
      created_at = str ''2024-05-01T09:00:00Z'', priority_score = Fin 0.3,
      priority_band = str ''P3'', priority_breakdown = None,
      llm_signals = Some example_signals, manual_override = True,
      override_priority = Some (Fin 0.9), override_reason = Some (str ''VIP escalation''),
      override_by = Some (str ''Dana''), override_at = Some (str ''2024-05-01T09:30:00Z''),
      effective_priority = Fin 0.9, status = str ''open''\<rparr>"

definition errored_ticket :: ticket where
  "errored_ticket =
     example_ticket\<lparr>llm_signals :=
       Some \<lparr>urgency = None, confidence = None, sentiment = None, summary = None,
             error = JStr (str ''LLM request failed'')\<rparr>\<rparr>"

definition null_urgency_ticket :: ticket where
  "null_urgency_ticket =
     example_ticket\<lparr>llm_signals :=
       Some \<lparr>urgency = None, confidence = Some (Fin 0.9), sentiment = None, summary = None,
             error = JUndefined\<rparr>\<rparr>"

definition example_page :: page where
  "example_page =
     \<lparr>requests = [], isOverrideMode = True, isSubmitting = False, alerts = [], closed = False\<rparr>"

text \<open>The texts a list of rendered nodes shows, in document order.\<close>

definition shown :: "vnode list \<Rightarrow> jsstring list" where
  "shown ns = concat (map texts ns)"

section \<open>Auxiliary facts\<close>


lemma band_names_distinct: "distinct [str ''P0'', str ''P1'', str ''P2'', str ''P3'']"
  by (simp add: str_def)

lemma js_ge_Fin [simp]: "js_ge (Fin x) (Fin y) = (y \<le> x)"
  by (auto simp: js_ge_def)

lemma priorityNum_not_NaN: "priorityNum B f \<noteq> NaN"
  by (simp add: priorityNum_def num_or_def)

lemmas dec_defs = decimal_builtins_def parseFloat_dec_def parse_unsigned_def str_def is_ws_def
  is_digit_def starts_with_def digits_value_def parse_exponent_def scale10_def js_neg_def

lemmas eval_defs = decimal_builtins_def str_def toFixed_dec_def numberToString_dec_def
  toUpperCase_ascii_def math_round_def js_times_def dec.simps

text \<open>What the badge prints for a number, and for a number after \<open>|| 0\<close>.\<close>

lemma displayScore_num:
  "displayScore B (JNum n) =
     (case n of NaN \<Rightarrow> str ''0'' | PosInf \<Rightarrow> toFixed B PosInf 0 | NegInf \<Rightarrow> toFixed B NegInf 0
      | Fin x \<Rightarrow> toFixed B (Fin (x * 100)) 0)"
  by (cases n) (simp_all add: displayScore_def isNaN_def js_times_def)

lemma displayScore_num_or:
  "displayScore B (JNum (num_or n (Fin 0))) =
     (case n of NaN \<Rightarrow> toFixed B (Fin 0) 0 | PosInf \<Rightarrow> toFixed B PosInf 0
      | NegInf \<Rightarrow> toFixed B NegInf 0 | Fin x \<Rightarrow> toFixed B (Fin (x * 100)) 0)"
  by (cases n) (auto simp: displayScore_def isNaN_def js_times_def num_or_def)

lemma modalOverview_cases:
  "(case modalOverview B t of
      Inl e \<Rightarrow> customer_tier t = str ''__proto__''
    | Inr v \<Rightarrow> \<exists>rest. v = VElem ''div'' (str ''space-y-6'') (modalBadge B t # rest))"
  by (auto simp: modalOverview_def tier_child_def split: sum.splits jsval.splits if_splits)

lemma validate_fields: "fst (validate B f) = f\<lparr>errors := errors (fst (validate B f))\<rparr>"
  by (simp add: validate_def Let_def)

lemma handleSubmit_rejected:
  "\<not> snd (validate B f) \<Longrightarrow>
   handleSubmit B onSubmit f w = (f\<lparr>errors := errors (fst (validate B f))\<rparr>, w)"
  using validate_fields [of B f] by (simp add: handleSubmit_def split_beta)

lemma handleSubmit_accepted:
  "validate B f = (f', True) \<Longrightarrow>
   handleSubmit B onSubmit f w =
     (f', onSubmit \<lparr>data_priority = js_over (parseFloat B (priority f)) 100,
                    data_reason = trim (reason f), data_by = trim (agentName f)\<rparr> w)"
  by (simp add: handleSubmit_def)

text \<open>
  The bound checked on the percent input is the bound \<open>[0, 1]\<close> on the priority the form
  would submit.
\<close>

lemma percent_bound_is_unit_bound:
  "js_lt (js_over n 100) (Fin 0) = js_lt n (Fin 0)"
  "js_gt (js_over n 100) (Fin 1) = js_gt n (Fin 100)"
  "isNaN (js_over n 100) = isNaN n"
  by (cases n; simp add: js_over_def js_gt_def isNaN_def)+

text \<open>The thresholds of the band preview are those of the engine, scaled to percent.\<close>

lemma getPriorityBand_agrees_with_engine:
  "band (getPriorityBand (Fin (100 * s))) = band_of_score s"
  by (simp add: getPriorityBand_def band_of_score_def)


section \<open>Weights and the breakdown identity\<close>

text \<open>
  C1. The breakdown view lists the three signals with the weights \<open>0.4\<close> (urgency),
  \<open>0.4\<close> (SLA risk) and \<open>0.2\<close> (tier); they are the engine's weights and sum to \<open>1\<close>. For
  every breakdown the engine builds, from any three normalized values and so from any
  inputs of \<open>compute_priority\<close>, the three contributions add up to \<open>final_score\<close> exactly,
  \<open>final_score\<close> is the weighted sum, and each contribution is the value times the weight
  its row displays.
\<close>

theorem breakdown_weights_and_identity:
  "map weight (components b) = [0.4, 0.4, 0.2] \<and>
   sum_list (map weight (components b)) = 1 \<and>
   [w_urgency, w_sla, w_tier] = map weight (components b) \<and>
   w_urgency + w_sla + w_tier = 1 \<and>
   (let r = make_breakdown eu risk tw in
      urgency_contribution r + sla_contribution r + tier_contribution r = final_score r \<and>
      final_score r = 0.4 * eu + 0.4 * risk + 0.2 * tw \<and>
      map contribution (components r) = map (\<lambda>c. comp_value c * weight c) (components r)) \<and>
   (let p = compute_priority reference_window tier hours sig; r = result_breakdown p in
      urgency_contribution r + sla_contribution r + tier_contribution r = final_score r \<and>
      result_score p = final_score r \<and>
      map contribution (components r) = map (\<lambda>c. comp_value c * weight c) (components r))"
  by (simp add: components_def make_breakdown_def compute_priority_def w_urgency_def w_sla_def
      w_tier_def Let_def)

section \<open>Banding\<close>

text \<open>
  C2. The band preview of the override form assigns exactly one band to every percent
  value \<open>p\<close>: \<open>P0\<close> exactly when \<open>p >= 80\<close>, \<open>P1\<close> exactly when \<open>60 <= p < 80\<close>, \<open>P2\<close> exactly
  when \<open>40 <= p < 60\<close>, and \<open>P3\<close> otherwise (below \<open>40\<close>, or NaN, which \<open>priorityNum\<close>
  never is). The four names are distinct, so the bands do not overlap. On the unit scale,
  a score \<open>s\<close> shown as \<open>100 * s\<close> percent gets \<open>P0\<close> from \<open>0.80\<close>, \<open>P1\<close> on \<open>[0.60, 0.80)\<close>,
  \<open>P2\<close> on \<open>[0.40, 0.60)\<close> and \<open>P3\<close> below \<open>0.40\<close>: the lower bounds are inclusive.
\<close>

theorem getPriorityBand_partition:
  "(band (getPriorityBand p) = str ''P0'') = js_ge p (Fin 80) \<and>
   (band (getPriorityBand p) = str ''P1'') = (js_ge p (Fin 60) \<and> \<not> js_ge p (Fin 80)) \<and>
   (band (getPriorityBand p) = str ''P2'') = (js_ge p (Fin 40) \<and> \<not> js_ge p (Fin 60)) \<and>
   (band (getPriorityBand p) = str ''P3'') = (\<not> js_ge p (Fin 40)) \<and>
   band (getPriorityBand (Fin (100 * s))) =
     (if 0.80 \<le> s then str ''P0'' else if 0.60 \<le> s then str ''P1''
      else if 0.40 \<le> s then str ''P2'' else str ''P3'') \<and>
   distinct [str ''P0'', str ''P1'', str ''P2'', str ''P3''] \<and>
   priorityNum B f \<noteq> NaN"
proof -
  have ge: "js_ge p (Fin 80) \<Longrightarrow> js_ge p (Fin 60)" "js_ge p (Fin 60) \<Longrightarrow> js_ge p (Fin 40)"
    by (cases p; simp add: js_ge_def)+
  have d: "str ''P0'' \<noteq> str ''P1''" "str ''P0'' \<noteq> str ''P2''" "str ''P0'' \<noteq> str ''P3''"
    "str ''P1'' \<noteq> str ''P2''" "str ''P1'' \<noteq> str ''P3''" "str ''P2'' \<noteq> str ''P3''"
    by (simp_all add: str_def)
  have p0: "(band (getPriorityBand p) = str ''P0'') = js_ge p (Fin 80)"
    using d by (auto simp: getPriorityBand_def)
  have p1: "(band (getPriorityBand p) = str ''P1'') = (js_ge p (Fin 60) \<and> \<not> js_ge p (Fin 80))"
    using d by (auto simp: getPriorityBand_def)
  have p2: "(band (getPriorityBand p) = str ''P2'') = (js_ge p (Fin 40) \<and> \<not> js_ge p (Fin 60))"
    using d ge by (auto simp: getPriorityBand_def)
  have p3: "(band (getPriorityBand p) = str ''P3'') = (\<not> js_ge p (Fin 40))"
    using d ge by (auto simp: getPriorityBand_def)
  have u: "band (getPriorityBand (Fin (100 * s))) =
     (if 0.80 \<le> s then str ''P0'' else if 0.60 \<le> s then str ''P1''
      else if 0.40 \<le> s then str ''P2'' else str ''P3'')"
    by (simp add: getPriorityBand_def)
  show ?thesis
    using p0 p1 p2 p3 u band_names_distinct priorityNum_not_NaN by blast
qed

section \<open>The enterprise, one hour, critical scenario\<close>

text \<open>
  C3, as the formula decides it. For tier \<open>enterprise\<close> (weight \<open>1.0\<close>), one SLA hour
  remaining with a 24-hour reference window (risk \<open>23/24\<close>, about \<open>0.958\<close>) and urgency
  \<open>critical\<close> at confidence \<open>1.0\<close> (effective urgency \<open>1.0\<close>), the weighted sum
  \<open>0.4 * 1.0 + 0.4 * 23/24 + 0.2 * 1.0\<close> is \<open>59/60\<close>, about \<open>0.983\<close>, and the thresholds map
  it to band \<open>P0\<close>; the form's band preview gives \<open>P0\<close> for that score as well.
\<close>

theorem scenario_enterprise_critical_band:
  "normalize_urgency (Present Critical (Some 1.0)) = 1 \<and>
   normalize_sla 24 1 = 23 / 24 \<and> \<bar>normalize_sla 24 1 - 0.958\<bar> < 0.001 \<and>
   tier_score (str ''enterprise'') = 1 \<and>
   result_score (compute_priority 24 (str ''enterprise'') 1 (Present Critical (Some 1.0))) = 59 / 60 \<and>
   \<bar>result_score (compute_priority 24 (str ''enterprise'') 1 (Present Critical (Some 1.0))) - 0.983\<bar> < 0.001 \<and>
   result_band (compute_priority 24 (str ''enterprise'') 1 (Present Critical (Some 1.0))) = str ''P0'' \<and>
   band (getPriorityBand (Fin (100 *
     result_score (compute_priority 24 (str ''enterprise'') 1 (Present Critical (Some 1.0)))))) = str ''P0''"
  by (simp add: compute_priority_def make_breakdown_def normalize_sla_def clamp_def tier_score_def
      w_urgency_def w_sla_def w_tier_def band_of_score_def getPriorityBand_def Let_def)

text \<open>
  The score of that scenario is not within \<open>0.1\<close> of \<open>0.783\<close>, and neither the thresholds
  nor the band preview give \<open>P1\<close>.
\<close>

theorem scenario_enterprise_critical_counterexample:
  "\<not> \<bar>result_score (compute_priority 24 (str ''enterprise'') 1 (Present Critical (Some 1.0))) - 0.783\<bar> < 0.1 \<and>
   result_band (compute_priority 24 (str ''enterprise'') 1 (Present Critical (Some 1.0))) \<noteq> str ''P1'' \<and>
   band (getPriorityBand (Fin (100 *
     result_score (compute_priority 24 (str ''enterprise'') 1 (Present Critical (Some 1.0)))))) \<noteq> str ''P1''"
  by (simp add: compute_priority_def make_breakdown_def normalize_sla_def clamp_def tier_score_def
      w_urgency_def w_sla_def w_tier_def band_of_score_def getPriorityBand_def Let_def str_def)

section \<open>The priority badge on degenerate input\<close>



section \<open>Rejected overrides\<close>

text \<open>
  C4. A form whose priority does not parse to a number, or parses below \<open>0\<close> or above
  \<open>100\<close> percent (\<open>-0.1\<close> and \<open>1.5\<close> on the unit scale are the inputs \<open>-10\<close> and \<open>150\<close>), or
  whose trimmed reason has fewer than 5 characters, or whose trimmed agent name has fewer
  than 2, is rejected as a whole: validation fails and records at least one error,
  \<open>onSubmit\<close> is not called, so whatever the parent owns is unchanged, and with the
  modal's \<open>handleOverride\<close> as \<open>onSubmit\<close> the page is unchanged: no request is sent to the
  back end, which is the only way a stored ticket changes. Of the form only \<open>errors\<close>
  changes.
\<close>

theorem override_rejected_without_effect:
  assumes "isNaN (parseFloat B (priority f)) \<or> js_lt (parseFloat B (priority f)) (Fin 0) \<or>
           js_gt (parseFloat B (priority f)) (Fin 100) \<or>
           length (trim (reason f)) < 5 \<or> length (trim (agentName f)) < 2"
  shows "\<not> snd (validate B f) \<and>
         errors (fst (validate B f)) \<noteq> [] \<and>
         handleSubmit B onSubmit f w = (f\<lparr>errors := errors (fst (validate B f))\<rparr>, w) \<and>
         handleSubmit B (handleOverride responds t) f pg =
           (f\<lparr>errors := errors (fst (validate B f))\<rparr>, pg)"
proof -
  have e: "errors (fst (validate B f)) \<noteq> []"
    using assms by (auto simp: validate_def Let_def)
  then have n: "\<not> snd (validate B f)"
    by (simp add: validate_def Let_def)
  show ?thesis
    using e n by (simp add: handleSubmit_rejected)
qed

theorem override_rejected_without_effect_witness:
  "js_over (parseFloat decimal_builtins (str ''-10'')) 100 = Fin (- 0.1) \<and>
   handleSubmit decimal_builtins (handleOverride (\<lambda>c. True) example_ticket)
     \<lparr>priority = str ''-10'', reason = str ''VIP escalation'', agentName = str ''Dana'',
      errors = []\<rparr>
     example_page =
     (\<lparr>priority = str ''-10'', reason = str ''VIP escalation'', agentName = str ''Dana'',
       errors = [(''priority'', ''Priority must be between 0 and 100'')]\<rparr>, example_page) \<and>
   js_over (parseFloat decimal_builtins (str ''150'')) 100 = Fin 1.5 \<and>
   handleSubmit decimal_builtins (handleOverride (\<lambda>c. True) example_ticket)
     \<lparr>priority = str ''150'', reason = str ''VIP escalation'', agentName = str ''Dana'',
      errors = []\<rparr>
     example_page =
     (\<lparr>priority = str ''150'', reason = str ''VIP escalation'', agentName = str ''Dana'',
       errors = [(''priority'', ''Priority must be between 0 and 100'')]\<rparr>, example_page) \<and>
   handleSubmit decimal_builtins (handleOverride (\<lambda>c. True) example_ticket)
     \<lparr>priority = str ''90'', reason = [], agentName = str ''  '', errors = []\<rparr>
     example_page =
     (\<lparr>priority = str ''90'', reason = [], agentName = str ''  '',
       errors = [(''reason'', ''Reason must be at least 5 characters''),
                 (''agentName'', ''Please enter your name'')]\<rparr>, example_page)"
  using
    override_rejected_without_effect [where B = decimal_builtins and responds = "\<lambda>c. True"
      and t = example_ticket and pg = example_page and onSubmit = "\<lambda>d w. w" and w = "()"
      and f = "\<lparr>priority = str ''-10'', reason = str ''VIP escalation'',
                agentName = str ''Dana'', errors = []\<rparr>"]
    override_rejected_without_effect [where B = decimal_builtins and responds = "\<lambda>c. True"
      and t = example_ticket and pg = example_page and onSubmit = "\<lambda>d w. w" and w = "()"
      and f = "\<lparr>priority = str ''150'', reason = str ''VIP escalation'',
                agentName = str ''Dana'', errors = []\<rparr>"]
    override_rejected_without_effect [where B = decimal_builtins and responds = "\<lambda>c. True"
      and t = example_ticket and pg = example_page and onSubmit = "\<lambda>d w. w" and w = "()"
      and f = "\<lparr>priority = str ''90'', reason = [], agentName = str ''  '', errors = []\<rparr>"]
  by (simp add: dec_defs validate_def isNaN_def js_gt_def js_over_def trim_def Let_def)

section \<open>Accepted overrides\<close>

text \<open>
  C9. Whenever validation succeeds, the priority input parses to a finite percent \<open>x\<close>
  with \<open>0 <= x <= 100\<close>, and \<open>onSubmit\<close> is called once with the payload whose priority is
  \<open>x / 100\<close>, which lies in \<open>[0, 1]\<close>, whose reason is the trimmed reason, of length at
  least 5, and whose \<open>by\<close> is the trimmed agent name, of length at least 2; both are
  therefore non-empty. With the modal's \<open>handleOverride\<close> as \<open>onSubmit\<close>, the one request
  sent to the back end carries exactly these three values.
\<close>

theorem accepted_override_payload:
  assumes "snd (validate B f)"
  shows "\<exists>x. parseFloat B (priority f) = Fin x \<and> 0 \<le> x \<and> x \<le> 100 \<and>
           handleSubmit B onSubmit f w =
             (f\<lparr>errors := []\<rparr>,
              onSubmit \<lparr>data_priority = Fin (x / 100), data_reason = trim (reason f),
                         data_by = trim (agentName f)\<rparr> w) \<and>
           requests (snd (handleSubmit B (handleOverride responds t) f pg)) =
             requests pg @
             [OverridePriority (ticket_id t) (Fin (x / 100)) (trim (reason f))
                (trim (agentName f))] \<and>
           0 \<le> x / 100 \<and> x / 100 \<le> 1 \<and>
           5 \<le> length (trim (reason f)) \<and> trim (reason f) \<noteq> [] \<and>
           2 \<le> length (trim (agentName f)) \<and> trim (agentName f) \<noteq> []"
proof -
  from assms have ok:
    "\<not> isNaN (parseFloat B (priority f))" "\<not> js_lt (parseFloat B (priority f)) (Fin 0)"
    "\<not> js_gt (parseFloat B (priority f)) (Fin 100)"
    "5 \<le> length (trim (reason f))" "2 \<le> length (trim (agentName f))"
    by (auto simp: validate_def Let_def split: if_splits)
  from ok(1-3) obtain x where x: "parseFloat B (priority f) = Fin x" "0 \<le> x" "x \<le> 100"
    by (cases "parseFloat B (priority f)") (auto simp: isNaN_def js_gt_def)
  from ok have v: "validate B f = (f\<lparr>errors := []\<rparr>, True)"
    by (simp add: validate_def Let_def)
  have p: "js_over (parseFloat B (priority f)) 100 = Fin (x / 100)"
    by (simp add: x js_over_def)
  have s: "handleSubmit B onSubmit f w =
     (f\<lparr>errors := []\<rparr>,
      onSubmit \<lparr>data_priority = Fin (x / 100), data_reason = trim (reason f),
                 data_by = trim (agentName f)\<rparr> w)"
    by (simp add: handleSubmit_accepted [OF v] p)
  have q: "requests (snd (handleSubmit B (handleOverride responds t) f pg)) =
      requests pg @
      [OverridePriority (ticket_id t) (Fin (x / 100)) (trim (reason f)) (trim (agentName f))]"
    by (simp add: handleSubmit_accepted [OF v] p handleOverride_def Let_def)
  from ok(4,5) have n: "trim (reason f) \<noteq> []" "trim (agentName f) \<noteq> []"
    by auto
  show ?thesis using x s q n ok(4,5) by auto
qed

theorem accepted_override_payload_witness:
  "snd (validate decimal_builtins
     \<lparr>priority = str ''75'', reason = str ''  VIP customer '', agentName = str '' Al '',
      errors = []\<rparr>) \<and>
   handleSubmit decimal_builtins (handleOverride (\<lambda>c. True) example_ticket)
     \<lparr>priority = str ''75'', reason = str ''  VIP customer '', agentName = str '' Al '',
      errors = []\<rparr>
     example_page =
     (\<lparr>priority = str ''75'', reason = str ''  VIP customer '', agentName = str '' Al '',
       errors = []\<rparr>,
      \<lparr>requests = [OverridePriority (str ''TKT-1001'') (Fin 0.75) (str ''VIP customer'') (str ''Al'')],
       isOverrideMode = False, isSubmitting = False,
       alerts = [''Priority override applied successfully!''], closed = True\<rparr>)"
proof -
  let ?f = "\<lparr>priority = str ''75'', reason = str ''  VIP customer '', agentName = str '' Al '',
             errors = []\<rparr>"
  have v: "snd (validate decimal_builtins ?f)"
    by (simp add: validate_def dec_defs isNaN_def js_gt_def trim_def Let_def)
  from accepted_override_payload [OF v,
      where onSubmit = "handleOverride (\<lambda>c. True) example_ticket" and w = example_page
        and responds = "\<lambda>c. True" and t = example_ticket and pg = example_page]
  show ?thesis using v
    by (simp add: dec_defs handleOverride_def example_page_def example_ticket_def trim_def Let_def)
qed

section \<open>The badge shows the computed priority\<close>

text \<open>
  C5, as the components decide it. For every ticket, the card shows the band
  \<open>priority_band\<close> and, in parentheses, the score \<open>priority_score\<close> times 100 printed
  with no decimals (a NaN score printed as that of \<open>0\<close>), followed by the text
  MANUAL OVERRIDE exactly when \<open>manual_override\<close> is set: the marker is a separate element
  after the badge, and the badge is the same with and without the flag. The detail modal
  shows the same band and score (a NaN score as \<open>0\<close>) in the badge that heads its overview
  tab; the overview does not depend on \<open>manual_override\<close>, so it carries no marker, and
  the action row offers Remove Override in place of Override Priority instead. Neither
  the card header nor the modal overview changes when \<open>override_priority\<close>, the other
  override fields or \<open>effective_priority\<close> change.
\<close>

theorem badge_shows_computed_priority:
  "shown (cardBadges B t) =
     [priority_band t,
      str ''('' @
      (case priority_score t of
         NaN \<Rightarrow> toFixed B (Fin 0) 0
       | PosInf \<Rightarrow> toFixed B PosInf 0
       | NegInf \<Rightarrow> toFixed B NegInf 0
       | Fin x \<Rightarrow> toFixed B (Fin (x * 100)) 0) @
      str ''%)''] @
     (if manual_override t then [str ''MANUAL OVERRIDE''] else []) \<and>
   cardBadges B t =
     PriorityBadge B (priority_band t) (JNum (num_or (priority_score t) (Fin 0))) Md #
     (if manual_override t then [override_marker] else []) \<and>
   cardBadges B (t\<lparr>manual_override := True\<rparr>) =
     cardBadges B (t\<lparr>manual_override := False\<rparr>) @ [override_marker] \<and>
   (override_marker \<in> set (cardBadges B t)) = manual_override t \<and>
   texts (modalBadge B t) =
     [priority_band t,
      str ''('' @
      (case priority_score t of
         NaN \<Rightarrow> str ''0''
       | PosInf \<Rightarrow> toFixed B PosInf 0
       | NegInf \<Rightarrow> toFixed B NegInf 0
       | Fin x \<Rightarrow> toFixed B (Fin (x * 100)) 0) @
      str ''%)''] \<and>
   (case modalOverview B t of
      Inl e \<Rightarrow> customer_tier t = str ''__proto__''
    | Inr v \<Rightarrow> \<exists>rest. v = VElem ''div'' (str ''space-y-6'') (modalBadge B t # rest)) \<and>
   modalOverview B (t\<lparr>manual_override := m\<rparr>) = modalOverview B t \<and>
   texts (modalActions t) =
     [if manual_override t then str ''Remove Override'' else str ''Override Priority'',
      str ''Close''] \<and>
   cardHeader B (t\<lparr>override_priority := p, override_reason := r, override_by := a,
                    override_at := d, effective_priority := e\<rparr>) = cardHeader B t \<and>
   modalOverview B (t\<lparr>override_priority := p, override_reason := r, override_by := a,
                    override_at := d, effective_priority := e\<rparr>) = modalOverview B t"
proof -
  have c: "shown (cardBadges B t) =
     [priority_band t,
      str ''('' @ displayScore B (JNum (num_or (priority_score t) (Fin 0))) @ str ''%)''] @
     (if manual_override t then [str ''MANUAL OVERRIDE''] else [])"
    by (simp add: cardBadges_def shown_def PriorityBadge_def override_marker_def)
  have b: "cardBadges B t =
     PriorityBadge B (priority_band t) (JNum (num_or (priority_score t) (Fin 0))) Md #
     (if manual_override t then [override_marker] else [])"
    "cardBadges B (t\<lparr>manual_override := True\<rparr>) =
     cardBadges B (t\<lparr>manual_override := False\<rparr>) @ [override_marker]"
    "(override_marker \<in> set (cardBadges B t)) = manual_override t"
    by (simp_all add: cardBadges_def PriorityBadge_def override_marker_def)
  have m: "texts (modalBadge B t) =
     [priority_band t, str ''('' @ displayScore B (JNum (priority_score t)) @ str ''%)'']"
    by (simp add: modalBadge_def PriorityBadge_def)
  have i: "modalOverview B (t\<lparr>manual_override := m\<rparr>) = modalOverview B t"
    "modalOverview B (t\<lparr>override_priority := p, override_reason := r, override_by := a,
                    override_at := d, effective_priority := e\<rparr>) = modalOverview B t"
    "cardHeader B (t\<lparr>override_priority := p, override_reason := r, override_by := a,
                    override_at := d, effective_priority := e\<rparr>) = cardHeader B t"
    by (simp_all add: modalOverview_def modalBadge_def modalAISignals_def customerDetails_def
        cardHeader_def cardBadges_def split: sum.splits)
  have a: "texts (modalActions t) =
     [if manual_override t then str ''Remove Override'' else str ''Override Priority'',
      str ''Close'']"
    by (simp add: modalActions_def)
  note c' = c [unfolded displayScore_num_or]
  note m' = m [unfolded displayScore_num]
  show ?thesis
    using c' b m' i a modalOverview_cases [where B = B and t = t]
    by (intro conjI) assumption+
qed

text \<open>
  The example ticket has \<open>manual_override\<close> set. The overview tab of its detail modal shows
  the badge \<open>P3 (30%)\<close> and the texts listed, with no MANUAL OVERRIDE text and no marker
  element anywhere in it, and the action row holds the two buttons only; the card shows
  the marker for the same ticket.
\<close>

theorem modal_marker_counterexample:
  "manual_override example_ticket \<and>
   (case modalOverview decimal_builtins example_ticket of
      Inl e \<Rightarrow> False
    | Inr v \<Rightarrow>
        texts v =
          [str ''P3'', str ''(30%)'', str ''Checkout fails for all users'',
           [55357, 56420] @ str '' Customer Details'', str ''Name:'', str '' '', str ''Avery Lee'',
           [55357, 56628], str ''Critical'', str ''(90% confident)'',
           str ''Customer Tier'', str ''GOLD'', str ''SLA Remaining'', str ''2.5'', str '' hrs''] \<and>
        override_marker \<notin> set (subnodes v) \<and>
        str ''MANUAL OVERRIDE'' \<notin> set (texts v)) \<and>
   texts (modalActions example_ticket) = [str ''Remove Override'', str ''Close''] \<and>
   override_marker \<notin> set (subnodes (modalActions example_ticket)) \<and>
   override_marker \<in> set (cardBadges decimal_builtins example_ticket)"
  by (simp add: modalOverview_def tier_child_def getTierDisplay_def get_property_def tierMap_def
      object_prototype_keys_def modalBadge_def PriorityBadge_def displayScore_def isNaN_def
      getBadgeClass_def customerDetails_def present_def when_present_def modalAISignals_def
      UrgencyIndicator_def getUrgencyDisplay_def urgency_badge_def opt_list_def
      SentimentIndicator_def modalActions_def override_marker_def cardBadges_def num_or_def
      example_ticket_def example_signals_def eval_defs)

section \<open>An unavailable AI signal\<close>

text \<open>
  C6, as the components decide it. The urgency indicator renders the message
  \<open>AI analysis unavailable\<close> for an urgency that is \<open>null\<close> (or empty). When the signal
  object is present without an error flag and its urgency is \<open>null\<close>, the AI block of the
  card shows its heading, the summary if there is one, and that message, and the block of
  the modal shows that message alone: no level and no confidence percentage. When the
  signal object is absent or carries an error flag, the AI block is suppressed entirely
  in both views, so it shows neither an urgency value nor the message.
\<close>

theorem ai_unavailable_display:
  "(u = None \<or> u = Some [] \<longrightarrow> UrgencyIndicator B u conf = Some unavailable_message) \<and>
   texts unavailable_message = [str ''AI analysis unavailable''] \<and>
   (llm_signals t = Some sig \<and> \<not> truthy (error sig) \<and>
    (urgency sig = None \<or> urgency sig = Some []) \<longrightarrow>
      shown (cardAISignals B t) =
        [[55358, 56598] @ str '' AI Analysis''] @
        (case summary sig of
           None \<Rightarrow> []
         | Some s \<Rightarrow> if s = [] then [] else [[34] @ s @ [34]]) @
        [str ''AI analysis unavailable''] \<and>
      shown (modalAISignals B t) = [str ''AI analysis unavailable'']) \<and>
   (llm_signals t = None \<or> (llm_signals t = Some sig \<and> truthy (error sig)) \<longrightarrow>
      cardAISignals B t = [] \<and> modalAISignals B t = [])"
  by (auto simp: UrgencyIndicator_def unavailable_message_def cardAISignals_def
      modalAISignals_def shown_def opt_list_def SentimentIndicator_def split: option.splits)

theorem ai_unavailable_display_witness:
  "UrgencyIndicator decimal_builtins None (Some (Fin 0.9)) = Some unavailable_message \<and>
   shown (cardAISignals decimal_builtins null_urgency_ticket) =
     [[55358, 56598] @ str '' AI Analysis'', str ''AI analysis unavailable''] \<and>
   shown (modalAISignals decimal_builtins null_urgency_ticket) = [str ''AI analysis unavailable''] \<and>
   cardAISignals decimal_builtins errored_ticket = [] \<and>
   modalAISignals decimal_builtins errored_ticket = [] \<and>
   cardAISignals decimal_builtins (example_ticket\<lparr>llm_signals := None\<rparr>) = []"
  using
    ai_unavailable_display [where B = decimal_builtins and u = None and conf = "Some (Fin 0.9)"
      and t = null_urgency_ticket and sig = "the (llm_signals null_urgency_ticket)"]
    ai_unavailable_display [where B = decimal_builtins and u = None and conf = None
      and t = errored_ticket and sig = "the (llm_signals errored_ticket)"]
    ai_unavailable_display [where B = decimal_builtins and u = None and conf = None
      and t = "example_ticket\<lparr>llm_signals := None\<rparr>" and sig = example_signals]
  by (simp add: null_urgency_ticket_def errored_ticket_def str_def)

text \<open>
  For a ticket whose signal is flagged errored (and whose urgency is \<open>null\<close>), and for one
  without a signal object, neither view shows the message.
\<close>

theorem errored_signal_counterexample:
  "truthy (error (the (llm_signals errored_ticket))) \<and>
   urgency (the (llm_signals errored_ticket)) = None \<and>
   str ''AI analysis unavailable'' \<notin> set (shown (cardAISignals decimal_builtins errored_ticket)) \<and>
   str ''AI analysis unavailable'' \<notin> set (shown (modalAISignals decimal_builtins errored_ticket)) \<and>
   str ''AI analysis unavailable'' \<notin> set
     (shown (cardAISignals decimal_builtins (example_ticket\<lparr>llm_signals := None\<rparr>)))"
  by (simp add: errored_ticket_def cardAISignals_def modalAISignals_def shown_def str_def)

section \<open>Unrecognized customer tiers\<close>

text \<open>
  C7, as the components decide it. For every customer tier that is neither one of
  \<open>enterprise\<close>, \<open>business\<close>, \<open>standard\<close>, \<open>free\<close> nor the name of a property inherited from
  \<open>Object.prototype\<close>, the tier badge of the card is the badge of the standard tier
  (\<open>TIER-3\<close>), the one a \<open>standard\<close> ticket gets; the detail modal displays such a tier in
  upper case instead.
\<close>

theorem unrecognized_tier_display:
  "(customer_tier t \<notin> set [str ''enterprise'', str ''business'', str ''standard'', str ''free''] \<and>
    customer_tier t \<notin> set object_prototype_keys \<longrightarrow>
      getCustomerTierBadge t = tier_badge tier_standard \<and>
      getCustomerTierBadge t = getCustomerTierBadge (t\<lparr>customer_tier := str ''standard''\<rparr>) \<and>
      texts (getCustomerTierBadge t) = [str ''TIER-3'']) \<and>
   (tier \<notin> set [str ''enterprise'', str ''business'', str ''standard'', str ''free''] \<and>
    tier \<notin> set object_prototype_keys \<longrightarrow>
      getTierDisplay B tier = JStr (toUpperCase B tier))"
proof -
  have s: "getCustomerTierBadge (t\<lparr>customer_tier := str ''standard''\<rparr>) = tier_badge tier_standard"
    by (simp add: getCustomerTierBadge_def get_property_def tierMapping_def str_def)
  have m: "map_of tierMapping k = None"
    if "k \<notin> set [str ''enterprise'', str ''business'', str ''standard'', str ''free'']" for k
    using that by (simp add: tierMapping_def)
  have m': "map_of tierMap k = None"
    if "k \<notin> set [str ''enterprise'', str ''business'', str ''standard'', str ''free'']" for k
    using that by (simp add: tierMap_def)
  have x: "texts (tier_badge tier_standard) = [str ''TIER-3'']"
    by (simp add: tier_badge_def tier_standard_def)
  show ?thesis
    using s m m' x by (auto simp: getCustomerTierBadge_def getTierDisplay_def get_property_def)
qed

theorem unrecognized_tier_display_witness:
  "getCustomerTierBadge example_ticket = tier_badge tier_standard \<and>
   texts (getCustomerTierBadge example_ticket) = [str ''TIER-3''] \<and>
   getTierDisplay decimal_builtins (str ''gold'') = JStr (str ''GOLD'')"
  using unrecognized_tier_display
    [where t = example_ticket and tier = "str ''gold''" and B = decimal_builtins]
  by (simp add: example_ticket_def object_prototype_keys_def decimal_builtins_def
      toUpperCase_ascii_def tier_badge_def tier_standard_def str_def)

text \<open>
  The tier \<open>gold\<close> is none of the four; the modal displays it as \<open>GOLD\<close>, not as the
  \<open>TIER-3\<close> it displays for \<open>standard\<close>. The tier \<open>constructor\<close> is none of the four
  either; the card looks up the inherited property of that name, which is truthy, and
  renders a badge with the class \<open>undefined\<close> and no label instead of the standard badge.
\<close>

theorem modal_tier_counterexample:
  "str ''gold'' \<notin> set [str ''enterprise'', str ''business'', str ''standard'', str ''free''] \<and>
   getTierDisplay decimal_builtins (str ''gold'') = JStr (str ''GOLD'') \<and>
   getTierDisplay decimal_builtins (str ''standard'') = JStr (str ''TIER-3'') \<and>
   getTierDisplay decimal_builtins (str ''gold'') \<noteq> getTierDisplay decimal_builtins (str ''standard'') \<and>
   str ''constructor'' \<notin> set [str ''enterprise'', str ''business'', str ''standard'', str ''free''] \<and>
   getCustomerTierBadge (example_ticket\<lparr>customer_tier := str ''constructor''\<rparr>) =
     VElem ''span'' (str ''px-2 py-0.5 text-xs font-medium rounded border undefined'') [] \<and>
   getCustomerTierBadge (example_ticket\<lparr>customer_tier := str ''constructor''\<rparr>) \<noteq>
     getCustomerTierBadge (example_ticket\<lparr>customer_tier := str ''standard''\<rparr>)"
  by (simp add: getTierDisplay_def getCustomerTierBadge_def get_property_def tierMap_def
      tierMapping_def object_prototype_keys_def tier_badge_def decimal_builtins_def
      toUpperCase_ascii_def str_def)

section \<open>The SLA warning\<close>

text \<open>
  C8. For every ticket the card renders the SLA warning, the red element with the
  warning icon and the text \<open>SLA: ..h remaining\<close>, exactly when
  \<open>sla_hours_remaining < 4\<close>, and the plain grey text \<open>SLA: ..h\<close> otherwise (also for NaN).
  With a 24-hour reference window the clamped risk formula gives \<open>5/6\<close>, about \<open>0.83\<close>, at
  4 hours, and a finite number of hours is below 4 exactly when its risk is above \<open>5/6\<close>.
\<close>

theorem sla_warning_cutoff:
  "getSLAWarning B t =
     (if js_lt (sla_hours_remaining t) (Fin 4)
      then VElem ''div'' (str ''flex items-center gap-1.5 text-red-600'')
             [VElem ''svg'' (str ''w-4 h-4'') [VElem ''path'' [] []],
              VElem ''span'' (str ''text-xs font-semibold'')
                [VText (str ''SLA: '' @ toFixed B (sla_hours_remaining t) 1 @ str ''h remaining'')]]
      else VElem ''span'' (str ''text-xs text-gray-500'')
             [VText (str ''SLA: '' @ toFixed B (sla_hours_remaining t) 1 @ str ''h'')]) \<and>
   (texts (getSLAWarning B t) =
      [str ''SLA: '' @ toFixed B (sla_hours_remaining t) 1 @ str ''h remaining'']) =
     js_lt (sla_hours_remaining t) (Fin 4) \<and>
   (texts (getSLAWarning B t) = [str ''SLA: '' @ toFixed B (sla_hours_remaining t) 1 @ str ''h'']) =
     (\<not> js_lt (sla_hours_remaining t) (Fin 4)) \<and>
   (\<exists>kids. getSLAWarning B t = VElem ''div'' (str ''flex items-center gap-1.5 text-red-600'') kids) =
     js_lt (sla_hours_remaining t) (Fin 4) \<and>
   (getSLAWarning B t = sla_warning B (sla_hours_remaining t)) =
     js_lt (sla_hours_remaining t) (Fin 4) \<and>
   (getSLAWarning B t = sla_plain B (sla_hours_remaining t)) =
     (\<not> js_lt (sla_hours_remaining t) (Fin 4)) \<and>
   js_lt (Fin h) (Fin 4) = (5 / 6 < normalize_sla 24 h) \<and>
   normalize_sla 24 4 = 5 / 6 \<and> (0.83 :: real) \<le> 5 / 6 \<and> \<bar>5 / 6 - 0.83\<bar> < (0.005 :: real)"
proof -
  have n: "str ''h remaining'' \<noteq> str ''h''"
    by (simp add: str_def)
  have d: "sla_warning B x \<noteq> sla_plain B x" for x
    by (simp add: sla_warning_def sla_plain_def)
  have r: "js_lt (Fin h) (Fin 4) = (5 / 6 < normalize_sla 24 h)"
    by (auto simp: normalize_sla_def clamp_def min_def max_def)
  have a: "normalize_sla 24 4 = 5 / 6"
    by (simp add: normalize_sla_def clamp_def)
  show ?thesis
  proof (cases "js_lt (sla_hours_remaining t) (Fin 4)")
    case True
    then show ?thesis
      using n d [of "sla_hours_remaining t"] r a
      by (simp add: getSLAWarning_def sla_warning_def sla_plain_def)
  next
    case False
    then show ?thesis
      using n d [of "sla_hours_remaining t"] r a
      by (simp add: getSLAWarning_def sla_warning_def sla_plain_def)
  qed
qed

end
